theory Spec2Isabelle
  imports Main
begin

section \<open>JavaScript values\<close>

text \<open>
  The values that \<^verbatim>\<open>JSON.parse\<close> can produce. \<^verbatim>\<open>undefined\<close> is not among them; a
  possibly-undefined value is a \<open>json option\<close>, with \<open>None\<close> for \<^verbatim>\<open>undefined\<close>.
  Numbers are restricted to integers. An object keeps its members in source order.
\<close>

datatype json =
    JNull
  | JBool bool
  | JNum int
  | JStr string
  | JArr "json list"
  | JObj "(string \<times> json) list"

text \<open>A thrown or rejected value: an \<^verbatim>\<open>Error\<close> whose \<^verbatim>\<open>message\<close> may be undefined.\<close>

datatype js_error = JsError (message: "string option")

text \<open>
  \<^verbatim>\<open>v.k\<close> for a key \<open>k\<close> that is no built-in property of strings, arrays, numbers
  or booleans: reading a property of \<^verbatim>\<open>null\<close> throws a TypeError, an object yields the
  member (the last one of that name, as \<^verbatim>\<open>JSON.parse\<close> keeps it) or \<^verbatim>\<open>undefined\<close>,
  every other value yields \<^verbatim>\<open>undefined\<close>. The TypeError carries the message V8 gives it.
\<close>

fun get_prop :: "json \<Rightarrow> string \<Rightarrow> js_error + json option" where
  "get_prop JNull k =
     Inl (JsError (Some (''Cannot read properties of null (reading '' @ [CHR 0x27] @ k @ [CHR 0x27] @ '')'')))"
| "get_prop (JObj kvs) k = Inr (map_of (rev kvs) k)"
| "get_prop v k = Inr None"

text \<open>\<^verbatim>\<open>s || d\<close> on a possibly-undefined string: undefined and the empty string are falsy.\<close>

fun or_else :: "string option \<Rightarrow> string \<Rightarrow> string" where
  "or_else None d = d"
| "or_else (Some s) d = (if s = [] then d else s)"

text \<open>\<^verbatim>\<open>!s\<close> on a possibly-undefined string.\<close>

fun falsy :: "string option \<Rightarrow> bool" where
  "falsy None = True"
| "falsy (Some s) = (s = [])"

subsection \<open>\<^verbatim>\<open>String.prototype.split\<close> with a one-character separator\<close>

text \<open>
  The pieces of a string between the occurrences of the separator; the empty string has
  the one piece \<open>[]\<close>. The result is never empty (\<open>split_not_Nil\<close> below), so the first
  branch of the \<^verbatim>\<open>case\<close> is never taken.
\<close>

fun split :: "char \<Rightarrow> string \<Rightarrow> string list" where
  "split sep [] = [[]]"
| "split sep (c # cs) =
     (if c = sep then [] # split sep cs
      else (case split sep cs of
              [] \<Rightarrow> [[c]]
            | w # ws \<Rightarrow> (c # w) # ws))"

text \<open>\<^verbatim>\<open>xs[i]\<close>: reading past the end of an array yields \<^verbatim>\<open>undefined\<close>.\<close>

definition index :: "'a list \<Rightarrow> nat \<Rightarrow> 'a option" where
  "index xs i = (if i < length xs then Some (xs ! i) else None)"

text \<open>\<^verbatim>\<open>base64Image.split(',')[1]\<close>, the expression both adapters send as image data.\<close>

definition image_data :: "string \<Rightarrow> string option" where
  "image_data base64Image = index (split (CHR '','') base64Image) 1"

subsection \<open>A reference \<^verbatim>\<open>JSON.parse\<close>\<close>

text \<open>
  \<^verbatim>\<open>JSON.parse\<close> is the platform's; the adapter below takes it as a parameter
  \<open>string \<Rightarrow> json option\<close> (\<open>None\<close> when it throws). \<open>JSON_parse\<close> is an executable
  parser for a fragment of JSON (objects, arrays, strings without escapes, integers,
  \<^verbatim>\<open>true\<close>, \<^verbatim>\<open>false\<close>, \<^verbatim>\<open>null\<close>, white space), used to run the adapter on concrete
  response texts. Its recursion is bounded by the length of the text.
\<close>

definition is_ws :: "char \<Rightarrow> bool" where
  "is_ws c = (c = CHR '' '' \<or> c = CHR 0x09 \<or> c = CHR 0x0A \<or> c = CHR 0x0D)"

definition is_digit :: "char \<Rightarrow> bool" where
  "is_digit c = (48 \<le> (of_char c :: nat) \<and> (of_char c :: nat) \<le> 57)"

fun skip_ws :: "string \<Rightarrow> string" where
  "skip_ws [] = []"
| "skip_ws (c # cs) = (if is_ws c then skip_ws cs else c # cs)"

fun parse_chars :: "string \<Rightarrow> (string \<times> string) option" where
  "parse_chars [] = None"
| "parse_chars (c # cs) =
     (if c = CHR 0x22 then Some ([], cs)
      else if c = CHR 0x5C \<or> (of_char c :: nat) < 32 then None
      else (case parse_chars cs of None \<Rightarrow> None | Some (w, r) \<Rightarrow> Some (c # w, r)))"

fun parse_digits :: "nat \<Rightarrow> string \<Rightarrow> nat \<times> string" where
  "parse_digits acc [] = (acc, [])"
| "parse_digits acc (c # cs) =
     (if is_digit c then parse_digits (10 * acc + (of_char c - 48)) cs else (acc, c # cs))"

definition parse_literal :: "string \<Rightarrow> (json \<times> string) option" where
  "parse_literal s =
     (if take 4 s = ''true'' then Some (JBool True, drop 4 s)
      else if take 5 s = ''false'' then Some (JBool False, drop 5 s)
      else if take 4 s = ''null'' then Some (JNull, drop 4 s)
      else None)"

definition parse_number :: "string \<Rightarrow> (json \<times> string) option" where
  "parse_number s =
     (case s of
        [] \<Rightarrow> None
      | c # cs \<Rightarrow>
          if c = CHR ''-'' then
            (case cs of
               [] \<Rightarrow> None
             | d # ds \<Rightarrow>
                 if is_digit d then
                   (case parse_digits 0 cs of (n, r) \<Rightarrow> Some (JNum (- int n), r))
                 else None)
          else if is_digit c then
            (case parse_digits 0 s of (n, r) \<Rightarrow> Some (JNum (int n), r))
          else None)"

fun parse_value :: "nat \<Rightarrow> string \<Rightarrow> (json \<times> string) option"
  and parse_elements :: "nat \<Rightarrow> string \<Rightarrow> (json list \<times> string) option"
  and parse_members :: "nat \<Rightarrow> string \<Rightarrow> ((string \<times> json) list \<times> string) option"
where
  "parse_value 0 s = None"
| "parse_value (Suc n) s =
     (case skip_ws s of
        [] \<Rightarrow> None
      | c # cs \<Rightarrow>
          if c = CHR 0x22 then
            (case parse_chars cs of None \<Rightarrow> None | Some (w, r) \<Rightarrow> Some (JStr w, r))
          else if c = CHR ''['' then
            (case skip_ws cs of
               [] \<Rightarrow> None
             | d # ds \<Rightarrow>
                 if d = CHR '']'' then Some (JArr [], ds)
                 else (case parse_elements n (d # ds) of
                         None \<Rightarrow> None
                       | Some (vs, r) \<Rightarrow> Some (JArr vs, r)))
          else if c = CHR ''{'' then
            (case skip_ws cs of
               [] \<Rightarrow> None
             | d # ds \<Rightarrow>
                 if d = CHR ''}'' then Some (JObj [], ds)
                 else (case parse_members n (d # ds) of
                         None \<Rightarrow> None
                       | Some (kvs, r) \<Rightarrow> Some (JObj kvs, r)))
          else if c = CHR ''-'' \<or> is_digit c then parse_number (c # cs)
          else parse_literal (c # cs))"
| "parse_elements 0 s = None"
| "parse_elements (Suc n) s =
     (case parse_value n s of
        None \<Rightarrow> None
      | Some (v, r) \<Rightarrow>
          (case skip_ws r of
             [] \<Rightarrow> None
           | c # cs \<Rightarrow>
               if c = CHR '']'' then Some ([v], cs)
               else if c = CHR '','' then
                 (case parse_elements n cs of
                    None \<Rightarrow> None
                  | Some (vs, r') \<Rightarrow> Some (v # vs, r'))
               else None))"
| "parse_members 0 s = None"
| "parse_members (Suc n) s =
     (case skip_ws s of
        [] \<Rightarrow> None
      | q # cs \<Rightarrow>
          if q \<noteq> CHR 0x22 then None
          else
            (case parse_chars cs of
               None \<Rightarrow> None
             | Some (k, r) \<Rightarrow>
                 (case skip_ws r of
                    [] \<Rightarrow> None
                  | c # cs' \<Rightarrow>
                      if c \<noteq> CHR '':'' then None
                      else
                        (case parse_value n cs' of
                           None \<Rightarrow> None
                         | Some (v, r') \<Rightarrow>
                             (case skip_ws r' of
                                [] \<Rightarrow> None
                              | e # es \<Rightarrow>
                                  if e = CHR ''}'' then Some ([(k, v)], es)
                                  else if e = CHR '','' then
                                    (case parse_members n es of
                                       None \<Rightarrow> None
                                     | Some (kvs, r'') \<Rightarrow> Some ((k, v) # kvs, r''))
                                  else None)))))"

definition JSON_parse :: "string \<Rightarrow> json option" where
  "JSON_parse s =
     (case parse_value (Suc (length s)) s of
        None \<Rightarrow> None
      | Some (v, r) \<Rightarrow> if skip_ws r = [] then Some v else None)"

section \<open>Persona Analyzer: \<^verbatim>\<open>analyzeImage\<close>\<close>

text \<open>
  The request \<^verbatim>\<open>analyzeImage\<close> passes to \<^verbatim>\<open>ai.models.generateContent\<close>: the model,
  the inline image part, the instruction part and the response schema's required
  fields.
\<close>

record content_request =
  model :: string
  mimeType :: string
  data :: "string option"
  instruction :: string
  responseMimeType :: string
  required :: "string list"

text \<open>The remote response; \<^verbatim>\<open>response.text\<close> may be undefined.\<close>

record content_response =
  response_text :: "string option"

definition analysis_instruction :: string where
  "analysis_instruction =
     ''Analyze this image and identify the most prominent object. If multiple, pick one. '' @
     ''Imagine this object as a living character. Provide: 1. The object name. '' @
     ''2. A funny personality description. 3. A detailed prompt for a 5-second video '' @
     ''animation where the object moves, blinks, or dances in a human-like way while '' @
     ''keeping its original form.''"

definition analyze_request :: "string \<Rightarrow> content_request" where
  "analyze_request base64Image =
     \<lparr> model = ''gemini-3-flash-preview'',
       mimeType = ''image/jpeg'',
       data = image_data base64Image,
       instruction = analysis_instruction,
       responseMimeType = ''application/json'',
       required = [''objectName'', ''personality'', ''animationPrompt''] \<rparr>"

text \<open>
  \<^verbatim>\<open>analyzeImage\<close>, with \<^verbatim>\<open>JSON.parse\<close> and the remote call as parameters. A rejected
  remote call rejects the adapter with the same error; otherwise the adapter returns
  \<^verbatim>\<open>JSON.parse(response.text || '{}')\<close>, and any exception of the parse becomes the
  error \<^verbatim>\<open>Failed to parse analysis results\<close>. \<open>Inl\<close> is a rejection.
\<close>

definition parse_failed :: js_error where
  "parse_failed = JsError (Some ''Failed to parse analysis results'')"

definition analyzeImage ::
  "(string \<Rightarrow> json option) \<Rightarrow> (content_request \<Rightarrow> js_error + content_response) \<Rightarrow>
   string \<Rightarrow> js_error + json" where
  "analyzeImage parse generateContent base64Image =
     (case generateContent (analyze_request base64Image) of
        Inl e \<Rightarrow> Inl e
      | Inr response \<Rightarrow>
          (case parse (or_else (response_text response) ''{}'') of
             None \<Rightarrow> Inl parse_failed
           | Some v \<Rightarrow> Inr v))"

section \<open>Animation Generator: \<^verbatim>\<open>generateAnimation\<close>\<close>

record video_request =
  video_model :: string
  prompt :: "json option"
  imageBytes :: "string option"
  image_mimeType :: string
  numberOfVideos :: nat
  resolution :: string
  aspectRatio :: string

text \<open>
  The job handle. \<^verbatim>\<open>operation.done\<close> may be undefined, and every link of
  \<^verbatim>\<open>operation.response?.generatedVideos?.[0]?.video?.uri\<close> may be missing.
\<close>

record video =
  uri :: "string option"

record generated_video =
  video :: "video option"

record videos_response =
  generatedVideos :: "generated_video list option"

record operation =
  op_done :: "bool option"
  response :: "videos_response option"

definition downloadLink :: "operation \<Rightarrow> string option" where
  "downloadLink operation =
     Option.bind (response operation) (\<lambda>r.
     Option.bind (generatedVideos r) (\<lambda>gvs.
     Option.bind (index gvs 0) (\<lambda>gv.
     Option.bind (video gv) uri)))"

text \<open>The response of \<^verbatim>\<open>fetch\<close>; reading its body as a blob may reject.\<close>

datatype http_response = HttpResponse (blob: "js_error + string")

text \<open>
  The remote video service and the browser, as the adapter sees them:
  \<open>getVideosOperation k\<close> is the answer to the \<open>k\<close>-th status check, counted from 0.
\<close>

record video_service =
  generateVideos :: "video_request \<Rightarrow> js_error + operation"
  getVideosOperation :: "nat \<Rightarrow> js_error + operation"
  fetch :: "string \<Rightarrow> js_error + http_response"
  createObjectURL :: "string \<Rightarrow> string"

text \<open>What the adapter does to the outside world, in order.\<close>

datatype effect =
    GenerateVideos video_request
  | SetTimeout nat
  | GetVideosOperation
  | Fetch string
  | ReadBlob
  | CreateObjectURL string

definition generate_request :: "string \<Rightarrow> json option \<Rightarrow> video_request" where
  "generate_request base64Image p =
     \<lparr> video_model = ''veo-3.1-fast-generate-preview'',
       prompt = p,
       imageBytes = image_data base64Image,
       image_mimeType = ''image/jpeg'',
       numberOfVideos = 1,
       resolution = ''720p'',
       aspectRatio = ''16:9'' \<rparr>"

text \<open>
  The loop \<^verbatim>\<open>while (!operation.done) { await delay(8000); operation = await
  getVideosOperation(...) }\<close>. It has no bound: on a job that never reports done it does
  not return, which is the value \<open>None\<close>. \<open>k\<close> counts the status checks made so far.
\<close>

partial_function (option) poll ::
  "(nat \<Rightarrow> js_error + operation) \<Rightarrow> nat \<Rightarrow> effect list \<Rightarrow> operation \<Rightarrow>
   ((js_error + operation) \<times> effect list) option" where
  "poll get k trace operation =
     (if op_done operation \<noteq> Some True then
        (case get k of
           Inl e \<Rightarrow> Some (Inl e, trace @ [SetTimeout 8000, GetVideosOperation])
         | Inr operation' \<Rightarrow>
             poll get (Suc k) (trace @ [SetTimeout 8000, GetVideosOperation]) operation')
      else Some (Inr operation, trace))"

declare poll.simps [code]

definition no_uri :: js_error where
  "no_uri = JsError (Some ''Video generation failed - no URI returned'')"

text \<open>
  \<^verbatim>\<open>generateAnimation\<close>: the submission, the polling loop, the test of the download
  link (\<^verbatim>\<open>!downloadLink\<close> holds for an undefined and for an empty link), the fetch of
  the link with the API key appended, and the object URL of the fetched blob.
  \<open>api_key\<close> is \<^verbatim>\<open>process.env.API_KEY\<close> as the template string renders it. The
  result is \<open>None\<close> when the adapter never returns; otherwise it is the outcome
  (\<open>Inl\<close> a rejection) and the trace of effects.
\<close>

definition generateAnimation ::
  "video_service \<Rightarrow> string \<Rightarrow> string \<Rightarrow> json option \<Rightarrow>
   ((js_error + string) \<times> effect list) option" where
  "generateAnimation svc api_key base64Image p =
     (let req = generate_request base64Image p in
      case generateVideos svc req of
        Inl e \<Rightarrow> Some (Inl e, [GenerateVideos req])
      | Inr operation0 \<Rightarrow>
          (case poll (getVideosOperation svc) 0 [GenerateVideos req] operation0 of
             None \<Rightarrow> None
           | Some (Inl e, trace) \<Rightarrow> Some (Inl e, trace)
           | Some (Inr operation, trace) \<Rightarrow>
               (if falsy (downloadLink operation) then Some (Inl no_uri, trace)
                else
                  (let url = the (downloadLink operation) @ ''&key='' @ api_key in
                   case fetch svc url of
                     Inl e \<Rightarrow> Some (Inl e, trace @ [Fetch url])
                   | Inr videoResponse \<Rightarrow>
                       (case blob videoResponse of
                          Inl e \<Rightarrow> Some (Inl e, trace @ [Fetch url, ReadBlob])
                        | Inr b \<Rightarrow>
                            Some (Inr (createObjectURL svc b),
                                  trace @ [Fetch url, ReadBlob, CreateObjectURL b]))))))"

section \<open>Pipeline Controller: the \<^verbatim>\<open>App\<close> component\<close>

datatype status = Idle | Analyzing | Generating | Completed | Error

record animation_state =
  status :: status
  imageUrl :: "string option"
  videoUrl :: "string option"
  description :: "string option"
  error :: "string option"

text \<open>
  An invocation of the async function \<^verbatim>\<open>processImage\<close> is suspended at one of its two
  \<^verbatim>\<open>await\<close>s, holding the variables of its closure, or has run to its end.
\<close>

datatype run =
    AwaitAnalyze string
  | AwaitGenerate string json
  | Finished

text \<open>The adapter calls the controller has made, each with the run that made it.\<close>

datatype call =
    CallAnalyzeImage nat string
  | CallGenerateAnimation nat string "json option"

text \<open>
  The component's two state cells, \<^verbatim>\<open>state\<close> and \<^verbatim>\<open>persona\<close> (\<open>JNull\<close> is
  \<^verbatim>\<open>null\<close>), together with the invocations of \<^verbatim>\<open>processImage\<close> made so far and the
  adapter calls they issued.
\<close>

record app =
  state :: animation_state
  persona :: json
  runs :: "run list"
  calls :: "call list"

definition initial :: app where
  "initial =
     \<lparr> state = \<lparr> status = Idle, imageUrl = None, videoUrl = None,
                 description = None, error = None \<rparr>,
       persona = JNull, runs = [], calls = [] \<rparr>"

text \<open>
  \<^verbatim>\<open>processImage(base64)\<close> up to its first \<^verbatim>\<open>await\<close>: the state is replaced, and
  \<^verbatim>\<open>analyzeImage\<close> is called. The function has no guard on the current status.
\<close>

definition processImage :: "app \<Rightarrow> string \<Rightarrow> app" where
  "processImage w base64 =
     w \<lparr> state := \<lparr> status = Analyzing, imageUrl = Some base64, videoUrl = None,
                    description = None, error = None \<rparr>,
         runs := runs w @ [AwaitAnalyze base64],
         calls := calls w @ [CallAnalyzeImage (length (runs w)) base64] \<rparr>"

text \<open>The \<^verbatim>\<open>catch\<close> block of \<^verbatim>\<open>processImage\<close>, ending run \<open>i\<close>.\<close>

definition catch_block :: "app \<Rightarrow> nat \<Rightarrow> js_error \<Rightarrow> app" where
  "catch_block w i err =
     w \<lparr> state := (state w) \<lparr> status := Error,
                               error := Some (or_else (message err) ''Something went wrong'') \<rparr>,
         runs := (runs w) [i := Finished] \<rparr>"

text \<open>
  Run \<open>i\<close> resumes from \<^verbatim>\<open>await analyzeImage(base64)\<close> with the adapter's outcome. On
  success the persona is stored, the status becomes \<^verbatim>\<open>generating\<close>, and
  \<^verbatim>\<open>generateAnimation(base64, analysis.animationPrompt)\<close> is called; evaluating the
  argument throws when \<^verbatim>\<open>analysis\<close> is \<^verbatim>\<open>null\<close>. Settling a run that is not
  waiting there changes nothing.
\<close>

definition analyze_settled :: "app \<Rightarrow> nat \<Rightarrow> js_error + json \<Rightarrow> app" where
  "analyze_settled w i outcome =
     (if i < length (runs w) then
        (case runs w ! i of
           AwaitAnalyze base64 \<Rightarrow>
             (case outcome of
                Inl err \<Rightarrow> catch_block w i err
              | Inr analysis \<Rightarrow>
                  (let w1 = w \<lparr> persona := analysis \<rparr>;
                       w2 = w1 \<lparr> state := (state w1) \<lparr> status := Generating \<rparr> \<rparr>
                   in case get_prop analysis ''animationPrompt'' of
                        Inl err \<Rightarrow> catch_block w2 i err
                      | Inr p \<Rightarrow>
                          w2 \<lparr> runs := (runs w2) [i := AwaitGenerate base64 analysis],
                               calls := calls w2 @ [CallGenerateAnimation i base64 p] \<rparr>))
         | AwaitGenerate base64 analysis \<Rightarrow> w
         | Finished \<Rightarrow> w)
      else w)"

text \<open>Run \<open>i\<close> resumes from \<^verbatim>\<open>await generateAnimation(...)\<close> with the adapter's outcome.\<close>

definition generate_settled :: "app \<Rightarrow> nat \<Rightarrow> js_error + string \<Rightarrow> app" where
  "generate_settled w i outcome =
     (if i < length (runs w) then
        (case runs w ! i of
           AwaitAnalyze base64 \<Rightarrow> w
         | AwaitGenerate base64 analysis \<Rightarrow>
             (case outcome of
                Inl err \<Rightarrow> catch_block w i err
              | Inr v \<Rightarrow>
                  w \<lparr> state := (state w) \<lparr> status := Completed, videoUrl := Some v \<rparr>,
                      runs := (runs w) [i := Finished] \<rparr>)
         | Finished \<Rightarrow> w)
      else w)"

text \<open>\<^verbatim>\<open>reset\<close>: both state cells are replaced; suspended runs are not touched.\<close>

definition reset :: "app \<Rightarrow> app" where
  "reset w =
     w \<lparr> state := \<lparr> status = Idle, imageUrl = None, videoUrl = None,
                    description = None, error = None \<rparr>,
         persona := JNull \<rparr>"

text \<open>What can happen to the component, and a sequence of such events from the left.\<close>

datatype event =
    ProcessImage string
  | AnalyzeSettled nat "js_error + json"
  | GenerateSettled nat "js_error + string"
  | Reset

fun step :: "app \<Rightarrow> event \<Rightarrow> app" where
  "step w (ProcessImage base64) = processImage w base64"
| "step w (AnalyzeSettled i outcome) = analyze_settled w i outcome"
| "step w (GenerateSettled i outcome) = generate_settled w i outcome"
| "step w Reset = reset w"

definition exec :: "app \<Rightarrow> event list \<Rightarrow> app" where
  "exec w evs = foldl step w evs"

section \<open>Observations and sample inputs\<close>

text \<open>The number of status checks in a trace of the generator adapter.\<close>

definition status_checks :: "effect list \<Rightarrow> nat" where
  "status_checks tr = length (filter (\<lambda>e. e = GetVideosOperation) tr)"

text \<open>
  The successive reports of the job's status that the generator adapter reads: the answer
  to the submission, then the answers to the status checks.
\<close>

fun report :: "video_service \<Rightarrow> video_request \<Rightarrow> nat \<Rightarrow> js_error + operation" where
  "report svc req 0 = generateVideos svc req"
| "report svc req (Suc k) = getVideosOperation svc k"

text \<open>The generator calls that run \<open>i\<close> of the controller has made.\<close>

fun is_generate_call_of :: "nat \<Rightarrow> call \<Rightarrow> bool" where
  "is_generate_call_of i (CallAnalyzeImage j base64) = False"
| "is_generate_call_of i (CallGenerateAnimation j base64 p) = (i = j)"

definition generator_calls :: "nat \<Rightarrow> app \<Rightarrow> call list" where
  "generator_calls i w = filter (is_generate_call_of i) (calls w)"

text \<open>The number of invocations of \<^verbatim>\<open>processImage\<close> that have not run to their end.\<close>

definition in_flight :: "app \<Rightarrow> nat" where
  "in_flight w = length (filter (\<lambda>r. r \<noteq> Finished) (runs w))"

text \<open>An image as the capture component delivers it, and the persona of a teapot.\<close>

definition sample_image :: string where
  "sample_image = ''data:image/jpeg;base64,AAAA''"

definition teapot_text :: string where
  "teapot_text =
     ''{\"objectName\":\"teapot\",'' @
     ''\"personality\":\"a sassy grandma who judges your tea choices\",'' @
     ''\"animationPrompt\":\"teapot wiggles its spout and winks\"}''"

definition teapot :: json where
  "teapot =
     JObj [(''objectName'', JStr ''teapot''),
           (''personality'', JStr ''a sassy grandma who judges your tea choices''),
           (''animationPrompt'', JStr ''teapot wiggles its spout and winks'')]"

text \<open>A response that is valid JSON but has no \<^verbatim>\<open>animationPrompt\<close>.\<close>

definition incomplete_text :: string where
  "incomplete_text = ''{\"objectName\":\"teapot\",\"personality\":\"sassy\"}''"

definition incomplete :: json where
  "incomplete = JObj [(''objectName'', JStr ''teapot''), (''personality'', JStr ''sassy'')]"

text \<open>A remote analyzer that answers every request with the given text.\<close>

definition responds :: "string option \<Rightarrow> content_request \<Rightarrow> js_error + content_response" where
  "responds t req = Inr \<lparr> response_text = t \<rparr>"

text \<open>
  A remote video service whose job reports not done \<open>n\<close> times, the first time in the
  answer to the submission, and from then on reports done with the media reference \<open>u\<close>.
\<close>

definition pending_operation :: operation where
  "pending_operation = \<lparr> op_done = Some False, response = None \<rparr>"

definition finished_operation :: "string option \<Rightarrow> operation" where
  "finished_operation u =
     \<lparr> op_done = Some True,
       response = Some \<lparr> generatedVideos = Some [\<lparr> video = Some \<lparr> uri = u \<rparr> \<rparr>] \<rparr> \<rparr>"

definition sample_service :: "nat \<Rightarrow> string option \<Rightarrow> video_service" where
  "sample_service n u =
     \<lparr> generateVideos = (\<lambda>req. Inr (if 0 < n then pending_operation else finished_operation u)),
       getVideosOperation =
         (\<lambda>k. Inr (if Suc k < n then pending_operation else finished_operation u)),
       fetch = (\<lambda>url. Inr (HttpResponse (Inr (''video bytes of '' @ url)))),
       createObjectURL = (\<lambda>b. ''blob:'' @ b) \<rparr>"

section \<open>Properties of the string and polling primitives\<close>

lemma split_not_Nil: "split sep s \<noteq> []"
  by (induction s) (auto split: list.splits)

lemma hd_split: "hd (split sep s) = takeWhile (\<lambda>c. c \<noteq> sep) s"
  by (induction s) (auto simp: split_not_Nil split: list.splits)

lemma tl_split:
  "tl (split sep s) =
     (if sep \<in> set s then split sep (tl (dropWhile (\<lambda>c. c \<noteq> sep) s)) else [])"
  by (induction s) (auto simp: split_not_Nil split: list.splits)

lemma index_split_1:
  "index (split sep s) 1 =
     (if sep \<in> set s
      then Some (takeWhile (\<lambda>c. c \<noteq> sep) (tl (dropWhile (\<lambda>c. c \<noteq> sep) s)))
      else None)"
proof (cases "split sep s")
  case Nil
  then show ?thesis using split_not_Nil by blast
next
  case (Cons w ws)
  have ws: "ws = tl (split sep s)" using Cons by simp
  show ?thesis
  proof (cases "sep \<in> set s")
    case True
    let ?r = "tl (dropWhile (\<lambda>c. c \<noteq> sep) s)"
    from True ws have "ws = split sep ?r" by (simp add: tl_split)
    moreover obtain v vs where "split sep ?r = v # vs"
      using split_not_Nil by (cases "split sep ?r") auto
    moreover from this have "v = takeWhile (\<lambda>c. c \<noteq> sep) ?r"
      using hd_split [of sep ?r] by simp
    ultimately show ?thesis using Cons True by (simp add: index_def)
  next
    case False
    with ws have "ws = []" by (simp add: tl_split)
    with Cons False show ?thesis by (simp add: index_def)
  qed
qed

lemma poll_done: "op_done operation = Some True \<Longrightarrow> poll get k tr operation = Some (Inr operation, tr)"
  by (subst poll.simps) simp

lemma poll_until_done:
  assumes "\<forall>j<n. \<exists>operation. get (k + j) = Inr operation \<and> op_done operation \<noteq> Some True"
    and "get (k + n) = Inr opd" and "op_done opd = Some True"
    and "op_done op0 \<noteq> Some True"
  shows "poll get k tr op0 =
           Some (Inr opd, tr @ concat (replicate (Suc n) [SetTimeout 8000, GetVideosOperation]))"
  using assms
proof (induction n arbitrary: k tr op0)
  case 0
  then show ?case
    by (subst poll.simps) (simp add: poll_done)
next
  case (Suc n)
  from Suc.prems(1) obtain op1 where op1: "get k = Inr op1" "op_done op1 \<noteq> Some True"
    by (metis add.right_neutral zero_less_Suc)
  have pend: "\<forall>j<n. \<exists>operation. get (Suc k + j) = Inr operation \<and> op_done operation \<noteq> Some True"
    using Suc.prems(1) by (metis Suc_less_eq add_Suc_shift)
  have fin: "get (Suc k + n) = Inr opd" using Suc.prems(2) by simp
  have "poll get (Suc k) (tr @ [SetTimeout 8000, GetVideosOperation]) op1 =
          Some (Inr opd, (tr @ [SetTimeout 8000, GetVideosOperation]) @
                          concat (replicate (Suc n) [SetTimeout 8000, GetVideosOperation]))"
    by (rule Suc.IH [OF pend fin Suc.prems(3) op1(2)])
  then show ?case
    using op1 Suc.prems(4) by (subst poll.simps) simp
qed

lemma status_checks_rounds:
  "status_checks (tr @ concat (replicate n [SetTimeout d, GetVideosOperation])) =
     status_checks tr + n"
  by (induction n) (simp_all add: status_checks_def)

lemma generateAnimation_success:
  assumes "generateVideos svc (generate_request b p) = Inr op0"
    and "op_done op0 \<noteq> Some True"
    and "\<forall>k<N. \<exists>operation. getVideosOperation svc k = Inr operation \<and> op_done operation \<noteq> Some True"
    and "getVideosOperation svc N = Inr opN"
    and "op_done opN = Some True"
    and "downloadLink opN = Some link" and "link \<noteq> []"
    and "fetch svc (link @ ''&key='' @ key) = Inr videoResponse"
    and "blob videoResponse = Inr payload"
  shows "generateAnimation svc key b p =
           Some (Inr (createObjectURL svc payload),
                 [GenerateVideos (generate_request b p)] @
                 concat (replicate (Suc N) [SetTimeout 8000, GetVideosOperation]) @
                 [Fetch (link @ ''&key='' @ key), ReadBlob, CreateObjectURL payload])"
proof -
  have "poll (getVideosOperation svc) 0 [GenerateVideos (generate_request b p)] op0 =
          Some (Inr opN, [GenerateVideos (generate_request b p)] @
                         concat (replicate (Suc N) [SetTimeout 8000, GetVideosOperation]))"
    by (rule poll_until_done) (use assms in simp_all)
  then show ?thesis
    using assms(1,6,7,8,9) by (simp add: generateAnimation_def)
qed

lemma generateAnimation_no_uri:
  assumes "generateVideos svc (generate_request b p) = Inr op0"
    and "op_done op0 \<noteq> Some True"
    and "\<forall>k<N. \<exists>operation. getVideosOperation svc k = Inr operation \<and> op_done operation \<noteq> Some True"
    and "getVideosOperation svc N = Inr opN"
    and "op_done opN = Some True"
    and "falsy (downloadLink opN)"
  shows "generateAnimation svc key b p =
           Some (Inl no_uri,
                 [GenerateVideos (generate_request b p)] @
                 concat (replicate (Suc N) [SetTimeout 8000, GetVideosOperation]))"
proof -
  have "poll (getVideosOperation svc) 0 [GenerateVideos (generate_request b p)] op0 =
          Some (Inr opN, [GenerateVideos (generate_request b p)] @
                         concat (replicate (Suc N) [SetTimeout 8000, GetVideosOperation]))"
    by (rule poll_until_done) (use assms in simp_all)
  then show ?thesis
    using assms(1,6) by (simp add: generateAnimation_def)
qed

lemma generateAnimation_no_uri_at_once:
  assumes "generateVideos svc (generate_request b p) = Inr op0"
    and "op_done op0 = Some True"
    and "falsy (downloadLink op0)"
  shows "generateAnimation svc key b p =
           Some (Inl no_uri, [GenerateVideos (generate_request b p)])"
  using assms by (simp add: generateAnimation_def poll_done)

lemma dropWhile_upto: "c \<notin> set pre \<Longrightarrow> dropWhile (\<lambda>x. x \<noteq> c) (pre @ c # xs) = c # xs"
  by (induction pre) auto

lemma takeWhile_upto: "c \<notin> set seg \<Longrightarrow> takeWhile (\<lambda>x. x \<noteq> c) (seg @ c # xs) = seg"
  by (induction seg) auto

lemma takeWhile_all: "c \<notin> set seg \<Longrightarrow> takeWhile (\<lambda>x. x \<noteq> c) seg = seg"
  by (induction seg) auto

section \<open>Properties of the controller's runs\<close>

lemma exec_Nil: "exec w [] = w"
  by (simp add: exec_def)

lemma exec_Cons: "exec w (e # evs) = exec (step w e) evs"
  by (simp add: exec_def)

lemma exec_snoc: "exec w (evs @ [e]) = step (exec w evs) e"
  by (simp add: exec_def)

text \<open>A run that has ended without a generator call stays so, whatever happens next.\<close>

lemma finished_step:
  assumes "i < length (runs w)" and "runs w ! i = Finished" and "generator_calls i w = []"
  shows "i < length (runs (step w e)) \<and> runs (step w e) ! i = Finished \<and>
         generator_calls i (step w e) = []"
proof (cases e)
  case (ProcessImage b)
  with assms show ?thesis
    by (simp add: processImage_def generator_calls_def nth_append)
next
  case (AnalyzeSettled j outcome)
  show ?thesis
  proof (cases "j = i")
    case True
    with assms AnalyzeSettled show ?thesis by (simp add: analyze_settled_def)
  next
    case False
    with assms AnalyzeSettled show ?thesis
      by (auto simp: analyze_settled_def catch_block_def generator_calls_def Let_def
               split: run.splits sum.splits)
  qed
next
  case (GenerateSettled j outcome)
  show ?thesis
  proof (cases "j = i")
    case True
    with assms GenerateSettled show ?thesis by (simp add: generate_settled_def)
  next
    case False
    with assms GenerateSettled show ?thesis
      by (auto simp: generate_settled_def catch_block_def generator_calls_def
               split: run.splits sum.splits)
  qed
next
  case Reset
  with assms show ?thesis by (simp add: reset_def generator_calls_def)
qed

lemma finished_exec:
  assumes "i < length (runs w)" and "runs w ! i = Finished" and "generator_calls i w = []"
  shows "i < length (runs (exec w evs)) \<and> runs (exec w evs) ! i = Finished \<and>
         generator_calls i (exec w evs) = []"
  using assms
proof (induction evs arbitrary: w)
  case Nil
  then show ?case by (simp add: exec_Nil)
next
  case (Cons e evs)
  from finished_step [OF Cons.prems, of e] show ?case
    by (simp add: exec_Cons Cons.IH)
qed

text \<open>In a reachable state, a run with a generator call is past its first await.\<close>

lemma called_step:
  assumes "\<forall>i. generator_calls i w \<noteq> [] \<longrightarrow>
             i < length (runs w) \<and> (\<forall>b. runs w ! i \<noteq> AwaitAnalyze b)"
  shows "\<forall>i. generator_calls i (step w e) \<noteq> [] \<longrightarrow>
           i < length (runs (step w e)) \<and> (\<forall>b. runs (step w e) ! i \<noteq> AwaitAnalyze b)"
proof (cases e)
  case (ProcessImage b)
  with assms show ?thesis
    by (auto simp: processImage_def generator_calls_def nth_append)
next
  case (AnalyzeSettled j outcome)
  with assms show ?thesis
    by (auto simp: analyze_settled_def catch_block_def generator_calls_def Let_def nth_list_update
             split: run.splits sum.splits)
next
  case (GenerateSettled j outcome)
  with assms show ?thesis
    by (auto simp: generate_settled_def catch_block_def generator_calls_def nth_list_update
             split: run.splits sum.splits)
next
  case Reset
  with assms show ?thesis by (simp add: reset_def generator_calls_def)
qed

lemma called_exec:
  "\<forall>i. generator_calls i (exec initial evs) \<noteq> [] \<longrightarrow>
     i < length (runs (exec initial evs)) \<and> (\<forall>b. runs (exec initial evs) ! i \<noteq> AwaitAnalyze b)"
proof (induction evs rule: rev_induct)
  case Nil
  show ?case by (simp add: exec_Nil initial_def generator_calls_def)
next
  case (snoc e evs)
  from called_step [OF snoc.IH, of e] show ?case by (simp add: exec_snoc)
qed

lemma in_flight_processImage: "in_flight (processImage w b) = Suc (in_flight w)"
  by (simp add: in_flight_def processImage_def)

section \<open>The claims\<close>

subsection \<open>Reset and late responses\<close>

text \<open>
  C1, as stated: after a reset while the generator is pending, the generator's response
  leaves the controller in Idle. It fails on the run below: the image is processed, the
  analyzer returns the teapot, the controller is reset to Idle with the generator still
  pending, and the generator's result then sets the status to Completed.
\<close>

theorem stale_result_counterexample:
  "status (state (exec initial
     [ProcessImage sample_image, AnalyzeSettled 0 (Inr teapot), Reset])) = Idle
   \<and> runs (exec initial
       [ProcessImage sample_image, AnalyzeSettled 0 (Inr teapot), Reset]) ! 0
       = AwaitGenerate sample_image teapot
   \<and> status (state (exec initial
       [ProcessImage sample_image, AnalyzeSettled 0 (Inr teapot), Reset,
        GenerateSettled 0 (Inr ''blob:video'')])) = Completed"
  by (simp add: exec_def initial_def processImage_def analyze_settled_def generate_settled_def
        reset_def teapot_def)

text \<open>
  C1, amended: \<^verbatim>\<open>reset\<close> puts the controller in Idle but does not invalidate a run that
  is waiting for the generator. When the generator's outcome arrives after the reset it
  is applied to the cleared state: a result sets the status to Completed with the video
  URL (image still absent), a failure sets it to Error with the message; the persona
  stays null.
\<close>

theorem stale_result_applied:
  assumes "i < length (runs w)" and "runs w ! i = AwaitGenerate b a"
  shows "status (state (reset w)) = Idle
       \<and> state (generate_settled (reset w) i (Inr v)) =
           \<lparr> status = Completed, imageUrl = None, videoUrl = Some v,
             description = None, error = None \<rparr>
       \<and> state (generate_settled (reset w) i (Inl err)) =
           \<lparr> status = Error, imageUrl = None, videoUrl = None, description = None,
             error = Some (or_else (message err) ''Something went wrong'') \<rparr>
       \<and> persona (generate_settled (reset w) i (Inr v)) = JNull
       \<and> persona (generate_settled (reset w) i (Inl err)) = JNull"
  using assms by (simp add: reset_def generate_settled_def catch_block_def)

theorem stale_result_applied_witness:
  "0 < length (runs (exec initial [ProcessImage sample_image, AnalyzeSettled 0 (Inr teapot)]))
   \<and> runs (exec initial [ProcessImage sample_image, AnalyzeSettled 0 (Inr teapot)]) ! 0
       = AwaitGenerate sample_image teapot
   \<and> state (generate_settled
       (reset (exec initial [ProcessImage sample_image, AnalyzeSettled 0 (Inr teapot)]))
       0 (Inr ''blob:video'')) =
         \<lparr> status = Completed, imageUrl = None, videoUrl = Some ''blob:video'',
           description = None, error = None \<rparr>"
proof -
  have h1: "0 < length (runs (exec initial
              [ProcessImage sample_image, AnalyzeSettled 0 (Inr teapot)]))"
    by (simp add: exec_def initial_def processImage_def analyze_settled_def teapot_def)
  have h2: "runs (exec initial [ProcessImage sample_image, AnalyzeSettled 0 (Inr teapot)]) ! 0
              = AwaitGenerate sample_image teapot"
    by (simp add: exec_def initial_def processImage_def analyze_settled_def teapot_def)
  from stale_result_applied [OF h1 h2, of "''blob:video''"] h1 h2 show ?thesis
    by simp
qed

text \<open>
  C8: \<^verbatim>\<open>reset\<close>, called in any state of the component, leaves the status Idle and no
  image, video, description or error in the state, and the persona null.
\<close>

theorem reset_clears_everything:
  "state (reset w) =
     \<lparr> status = Idle, imageUrl = None, videoUrl = None, description = None, error = None \<rparr>
   \<and> persona (reset w) = JNull"
  by (simp add: reset_def)

subsection \<open>Starting a run\<close>

text \<open>
  C5, as stated: a start in a state other than Idle begins no new run. It fails when
  \<^verbatim>\<open>processImage\<close> is invoked twice in a row: the second invocation finds the status
  Analyzing, and afterwards two runs are waiting for the analyzer, which has been called
  twice.
\<close>

theorem overlapping_runs_counterexample:
  "status (state (exec initial [ProcessImage sample_image])) = Analyzing
   \<and> runs (exec initial [ProcessImage sample_image, ProcessImage ''data:image/jpeg;base64,BBBB''])
       = [AwaitAnalyze sample_image, AwaitAnalyze ''data:image/jpeg;base64,BBBB'']
   \<and> calls (exec initial [ProcessImage sample_image, ProcessImage ''data:image/jpeg;base64,BBBB''])
       = [CallAnalyzeImage 0 sample_image, CallAnalyzeImage 1 ''data:image/jpeg;base64,BBBB'']
   \<and> in_flight (exec initial
       [ProcessImage sample_image, ProcessImage ''data:image/jpeg;base64,BBBB'']) = 2"
  by (simp add: exec_def initial_def processImage_def in_flight_def)

text \<open>
  C5, amended: \<^verbatim>\<open>processImage\<close> has no guard. Invoked in any state, it sets the status
  to Analyzing with the new image, calls the analyzer and adds a run to those in flight;
  a sequence of invocations leaves as many more runs in flight as it is long.
\<close>

theorem processImage_always_starts:
  "state (processImage w b) =
     \<lparr> status = Analyzing, imageUrl = Some b, videoUrl = None, description = None,
       error = None \<rparr>
   \<and> runs (processImage w b) = runs w @ [AwaitAnalyze b]
   \<and> calls (processImage w b) = calls w @ [CallAnalyzeImage (length (runs w)) b]
   \<and> in_flight (exec w (map ProcessImage bs)) = in_flight w + length bs"
proof -
  have "in_flight (exec w (map ProcessImage bs)) = in_flight w + length bs"
    by (induction bs arbitrary: w) (simp_all add: exec_Nil exec_Cons in_flight_processImage)
  then show ?thesis by (simp add: processImage_def)
qed

subsection \<open>The order of the two stages\<close>

text \<open>
  C4: in a state reached from the initial one, when the analyzer call of run \<open>i\<close>
  rejects, run \<open>i\<close> has made no generator call, and makes none whatever happens
  afterwards.
\<close>

theorem analyzer_failure_never_generates:
  assumes "w = exec initial evs" and "i < length (runs w)" and "runs w ! i = AwaitAnalyze b"
  shows "generator_calls i (exec w (AnalyzeSettled i (Inl err) # evs')) = []"
proof -
  have none: "generator_calls i w = []"
    using called_exec [of evs] assms by blast
  let ?w = "step w (AnalyzeSettled i (Inl err))"
  have "i < length (runs ?w) \<and> runs ?w ! i = Finished \<and> generator_calls i ?w = []"
    using assms(2,3) none
    by (simp add: analyze_settled_def catch_block_def generator_calls_def)
  then show ?thesis
    using finished_exec [of i ?w evs'] by (simp add: exec_Cons)
qed

theorem analyzer_failure_never_generates_witness:
  "0 < length (runs (exec initial [ProcessImage sample_image]))
   \<and> runs (exec initial [ProcessImage sample_image]) ! 0 = AwaitAnalyze sample_image
   \<and> generator_calls 0 (exec (exec initial [ProcessImage sample_image])
       (AnalyzeSettled 0 (Inl parse_failed) #
        [GenerateSettled 0 (Inr ''blob:video''), Reset, ProcessImage sample_image,
         AnalyzeSettled 1 (Inr teapot)])) = []"
proof -
  have h2: "0 < length (runs (exec initial [ProcessImage sample_image]))"
    by (simp add: exec_def initial_def processImage_def)
  have h3: "runs (exec initial [ProcessImage sample_image]) ! 0 = AwaitAnalyze sample_image"
    by (simp add: exec_def initial_def processImage_def)
  from analyzer_failure_never_generates [OF refl h2 h3] h2 h3 show ?thesis
    by blast
qed

subsection \<open>The analyzer adapter\<close>

text \<open>
  C2, as stated: the adapter returns a persona only with all three fields, and a valid
  JSON response without \<^verbatim>\<open>animationPrompt\<close> ends in the Error state. It fails on the
  response text \<^verbatim>\<open>{"objectName":"teapot","personality":"sassy"}\<close>: the adapter returns the
  parsed object, which has no \<^verbatim>\<open>animationPrompt\<close>, and the controller moves on to
  Generating and calls the generator with an undefined prompt.
\<close>

theorem missing_prompt_counterexample:
  "analyzeImage JSON_parse (responds (Some incomplete_text)) sample_image = Inr incomplete
   \<and> get_prop incomplete ''animationPrompt'' = Inr None
   \<and> status (state (exec initial
       [ProcessImage sample_image,
        AnalyzeSettled 0 (analyzeImage JSON_parse (responds (Some incomplete_text)) sample_image)]))
       = Generating
   \<and> calls (exec initial
       [ProcessImage sample_image,
        AnalyzeSettled 0 (analyzeImage JSON_parse (responds (Some incomplete_text)) sample_image)])
       = [CallAnalyzeImage 0 sample_image, CallGenerateAnimation 0 sample_image None]"
proof -
  have p: "JSON_parse incomplete_text = Some incomplete"
    by code_simp
  have a: "analyzeImage JSON_parse (responds (Some incomplete_text)) sample_image
             = Inr incomplete"
    using p by (simp add: analyzeImage_def responds_def incomplete_text_def)
  have g: "get_prop incomplete ''animationPrompt'' = Inr None"
    by (simp add: incomplete_def)
  show ?thesis
    using g by (simp add: a exec_def initial_def processImage_def analyze_settled_def)
qed

text \<open>
  C2, amended: the adapter validates nothing. Whenever the remote call succeeds and
  \<^verbatim>\<open>JSON.parse\<close> accepts the response text (or \<^verbatim>\<open>{}\<close> for a missing or empty text), the
  adapter returns the parsed value as it is; it raises only when the parse throws. For a
  response that is a JSON object without \<^verbatim>\<open>animationPrompt\<close> the adapter returns that
  object, and the controller stores it as the persona, moves to Generating and calls the
  generator with an undefined prompt.
\<close>

theorem analyzeImage_unvalidated:
  assumes "generateContent (analyze_request b) = Inr r"
  shows "(\<forall>v. parse (or_else (response_text r) ''{}'') = Some v \<longrightarrow>
            analyzeImage parse generateContent b = Inr v)
       \<and> (parse (or_else (response_text r) ''{}'') = None \<longrightarrow>
            analyzeImage parse generateContent b = Inl parse_failed)
       \<and> (\<forall>kvs. parse (or_else (response_text r) ''{}'') = Some (JObj kvs) \<and>
                 map_of (rev kvs) ''animationPrompt'' = None \<and>
                 i < length (runs w) \<and> runs w ! i = AwaitAnalyze b \<longrightarrow>
            status (state (analyze_settled w i (analyzeImage parse generateContent b)))
              = Generating
            \<and> persona (analyze_settled w i (analyzeImage parse generateContent b)) = JObj kvs
            \<and> calls (analyze_settled w i (analyzeImage parse generateContent b))
                = calls w @ [CallGenerateAnimation i b None])"
  using assms by (auto simp: analyzeImage_def analyze_settled_def)

theorem analyzeImage_unvalidated_witness:
  "responds (Some incomplete_text) (analyze_request sample_image)
     = Inr \<lparr> response_text = Some incomplete_text \<rparr>
   \<and> JSON_parse (or_else (Some incomplete_text) ''{}'') = Some incomplete
   \<and> JSON_parse (or_else (Some ''oops'') ''{}'') = None
   \<and> analyzeImage JSON_parse (responds (Some incomplete_text)) sample_image = Inr incomplete
   \<and> analyzeImage JSON_parse (responds (Some ''oops'')) sample_image = Inl parse_failed
   \<and> status (state (analyze_settled (processImage initial sample_image) 0
       (analyzeImage JSON_parse (responds (Some incomplete_text)) sample_image))) = Generating"
proof -
  have r1: "responds (Some incomplete_text) (analyze_request sample_image)
              = Inr \<lparr> response_text = Some incomplete_text \<rparr>"
    by (simp add: responds_def)
  have r2: "responds (Some ''oops'') (analyze_request sample_image)
              = Inr \<lparr> response_text = Some ''oops'' \<rparr>"
    by (simp add: responds_def)
  have p1: "JSON_parse (or_else (Some incomplete_text) ''{}'') = Some incomplete"
    by code_simp
  have p2: "JSON_parse (or_else (Some ''oops'') ''{}'') = None"
    by code_simp
  have m: "map_of (rev [(''objectName'', JStr ''teapot''), (''personality'', JStr ''sassy'')])
             ''animationPrompt'' = None"
    by simp
  have w: "0 < length (runs (processImage initial sample_image))
           \<and> runs (processImage initial sample_image) ! 0 = AwaitAnalyze sample_image"
    by (simp add: processImage_def initial_def)
  have t1:
    "(\<forall>v. JSON_parse (or_else (response_text \<lparr> response_text = Some incomplete_text \<rparr>) ''{}'')
            = Some v \<longrightarrow>
          analyzeImage JSON_parse (responds (Some incomplete_text)) sample_image = Inr v)
     \<and> (JSON_parse (or_else (response_text \<lparr> response_text = Some incomplete_text \<rparr>) ''{}'')
            = None \<longrightarrow>
          analyzeImage JSON_parse (responds (Some incomplete_text)) sample_image
            = Inl parse_failed)
     \<and> (\<forall>kvs. JSON_parse (or_else (response_text \<lparr> response_text = Some incomplete_text \<rparr>)
                  ''{}'') = Some (JObj kvs) \<and>
               map_of (rev kvs) ''animationPrompt'' = None \<and>
               0 < length (runs (processImage initial sample_image)) \<and>
               runs (processImage initial sample_image) ! 0 = AwaitAnalyze sample_image \<longrightarrow>
          status (state (analyze_settled (processImage initial sample_image) 0
            (analyzeImage JSON_parse (responds (Some incomplete_text)) sample_image)))
            = Generating
          \<and> persona (analyze_settled (processImage initial sample_image) 0
              (analyzeImage JSON_parse (responds (Some incomplete_text)) sample_image))
              = JObj kvs
          \<and> calls (analyze_settled (processImage initial sample_image) 0
              (analyzeImage JSON_parse (responds (Some incomplete_text)) sample_image))
              = calls (processImage initial sample_image) @
                [CallGenerateAnimation 0 sample_image None])"
    by (rule analyzeImage_unvalidated
          [where generateContent = "responds (Some incomplete_text)" and b = sample_image,
           OF r1])
  have t2:
    "JSON_parse (or_else (response_text \<lparr> response_text = Some ''oops'' \<rparr>) ''{}'') = None \<longrightarrow>
       analyzeImage JSON_parse (responds (Some ''oops'')) sample_image = Inl parse_failed"
    using analyzeImage_unvalidated
          [where generateContent = "responds (Some ''oops'')" and b = sample_image
             and parse = JSON_parse, OF r2]
    by blast
  have sel: "\<And>t. response_text \<lparr> response_text = t \<rparr> = t"
    by simp
  have a1: "analyzeImage JSON_parse (responds (Some incomplete_text)) sample_image
              = Inr incomplete"
    using t1 p1 unfolding sel by blast
  have a2: "analyzeImage JSON_parse (responds (Some ''oops'')) sample_image = Inl parse_failed"
    using t2 p2 unfolding sel by blast
  have a3: "status (state (analyze_settled (processImage initial sample_image) 0
              (analyzeImage JSON_parse (responds (Some incomplete_text)) sample_image)))
              = Generating"
    using t1 p1 m w unfolding sel incomplete_def by blast
  from r1 p1 p2 a1 a2 a3 show ?thesis
    by blast
qed

text \<open>
  C9: when the remote call succeeds with a missing or empty text, the adapter does not
  fail: it returns what \<^verbatim>\<open>JSON.parse\<close> makes of the literal \<^verbatim>\<open>{}\<close>, the object without
  members, in which none of the three persona fields is present. Given a successful
  remote call, the adapter fails exactly when the text is present, not empty, and
  rejected by the parse, and then with the parse-failure error.
\<close>

theorem analyzeImage_empty_text:
  assumes "parse ''{}'' = Some (JObj [])"
    and "generateContent (analyze_request b) = Inr r"
  shows "(response_text r = None \<or> response_text r = Some [] \<longrightarrow>
            analyzeImage parse generateContent b = Inr (JObj [])
            \<and> get_prop (JObj []) ''objectName'' = Inr None
            \<and> get_prop (JObj []) ''personality'' = Inr None
            \<and> get_prop (JObj []) ''animationPrompt'' = Inr None)
       \<and> (\<forall>e. analyzeImage parse generateContent b = Inl e \<longleftrightarrow>
              e = parse_failed \<and>
              (\<exists>t. response_text r = Some t \<and> t \<noteq> [] \<and> parse t = None))"
proof -
  have "or_else (response_text r) ''{}'' = ''{}''"
    if "response_text r = None \<or> response_text r = Some []"
    using that by auto
  moreover have "or_else (response_text r) ''{}'' = t"
    if "response_text r = Some t" and "t \<noteq> []" for t
    using that by simp
  ultimately show ?thesis
    using assms
    by (cases "response_text r")
       (auto simp: analyzeImage_def split: option.splits)
qed

theorem analyzeImage_empty_text_witness:
  "JSON_parse ''{}'' = Some (JObj [])
   \<and> responds None (analyze_request sample_image) = Inr \<lparr> response_text = None \<rparr>
   \<and> responds (Some ''oops'') (analyze_request sample_image)
       = Inr \<lparr> response_text = Some ''oops'' \<rparr>
   \<and> analyzeImage JSON_parse (responds None) sample_image = Inr (JObj [])
   \<and> analyzeImage JSON_parse (responds (Some ''oops'')) sample_image = Inl parse_failed"
proof -
  have p: "JSON_parse ''{}'' = Some (JObj [])"
    by code_simp
  have q: "JSON_parse ''oops'' = None"
    by code_simp
  have r1: "responds None (analyze_request sample_image) = Inr \<lparr> response_text = None \<rparr>"
    by (simp add: responds_def)
  have r2: "responds (Some ''oops'') (analyze_request sample_image)
              = Inr \<lparr> response_text = Some ''oops'' \<rparr>"
    by (simp add: responds_def)
  from analyzeImage_empty_text
         [where generateContent = "responds None" and b = sample_image and parse = JSON_parse,
          OF p r1]
       analyzeImage_empty_text
         [where generateContent = "responds (Some ''oops'')" and b = sample_image
            and parse = JSON_parse,
          OF p r2]
       p q r1 r2
  show ?thesis
    by simp
qed

subsection \<open>The generator adapter\<close>

text \<open>
  C3: the job is not done when submitted, the first \<open>N\<close> status checks report not done,
  and the next one reports done with a media reference that is not empty and can be
  fetched. Then the adapter returns the object URL of the fetched payload, after exactly
  \<open>N + 1\<close> status checks, each preceded by a delay of 8000 ms: the submission, \<open>N + 1\<close>
  rounds of delay and check, then the fetch.
\<close>

theorem generateAnimation_polls_until_done:
  assumes "generateVideos svc (generate_request b p) = Inr op0"
    and "op_done op0 \<noteq> Some True"
    and "\<forall>k<N. \<exists>operation. getVideosOperation svc k = Inr operation \<and> op_done operation \<noteq> Some True"
    and "getVideosOperation svc N = Inr opN"
    and "op_done opN = Some True"
    and "downloadLink opN = Some link" and "link \<noteq> []"
    and "fetch svc (link @ ''&key='' @ key) = Inr videoResponse"
    and "blob videoResponse = Inr payload"
  shows "\<exists>tr. generateAnimation svc key b p = Some (Inr (createObjectURL svc payload), tr)
            \<and> tr = [GenerateVideos (generate_request b p)] @
                   concat (replicate (N + 1) [SetTimeout 8000, GetVideosOperation]) @
                   [Fetch (link @ ''&key='' @ key), ReadBlob, CreateObjectURL payload]
            \<and> status_checks tr = N + 1"
proof -
  let ?rounds = "concat (replicate (Suc N) [SetTimeout 8000, GetVideosOperation])"
  have "status_checks ([GenerateVideos (generate_request b p)] @ ?rounds) = Suc N"
    by (simp only: status_checks_rounds) (simp add: status_checks_def)
  then have "status_checks
               (([GenerateVideos (generate_request b p)] @ ?rounds) @
                [Fetch (link @ ''&key='' @ key), ReadBlob, CreateObjectURL payload]) = Suc N"
    by (simp add: status_checks_def)
  with generateAnimation_success [OF assms] show ?thesis
    by simp
qed

theorem generateAnimation_polls_until_done_witness:
  "generateVideos (sample_service 3 (Some ''https://v/1?alt=media''))
     (generate_request sample_image (Some (JStr ''wiggle''))) = Inr pending_operation
   \<and> op_done pending_operation \<noteq> Some True
   \<and> getVideosOperation (sample_service 3 (Some ''https://v/1?alt=media'')) 0
       = Inr pending_operation
   \<and> getVideosOperation (sample_service 3 (Some ''https://v/1?alt=media'')) 1
       = Inr pending_operation
   \<and> getVideosOperation (sample_service 3 (Some ''https://v/1?alt=media'')) 2
       = Inr (finished_operation (Some ''https://v/1?alt=media''))
   \<and> generateAnimation (sample_service 3 (Some ''https://v/1?alt=media'')) ''KEY'' sample_image
       (Some (JStr ''wiggle''))
     = Some (Inr ''blob:video bytes of https://v/1?alt=media&key=KEY'',
             [GenerateVideos (generate_request sample_image (Some (JStr ''wiggle''))),
              SetTimeout 8000, GetVideosOperation,
              SetTimeout 8000, GetVideosOperation,
              SetTimeout 8000, GetVideosOperation,
              Fetch ''https://v/1?alt=media&key=KEY'', ReadBlob,
              CreateObjectURL ''video bytes of https://v/1?alt=media&key=KEY''])"
proof -
  let ?svc = "sample_service 3 (Some ''https://v/1?alt=media'')"
  have h1: "generateVideos ?svc (generate_request sample_image (Some (JStr ''wiggle'')))
              = Inr pending_operation"
    by (simp add: sample_service_def)
  have h2: "op_done pending_operation \<noteq> Some True"
    by (simp add: pending_operation_def)
  have h3: "\<forall>k<2. \<exists>operation. getVideosOperation ?svc k = Inr operation
              \<and> op_done operation \<noteq> Some True"
    by (simp add: sample_service_def pending_operation_def)
  have h4: "getVideosOperation ?svc 2 = Inr (finished_operation (Some ''https://v/1?alt=media''))"
    by (simp add: sample_service_def)
  have h5: "op_done (finished_operation (Some ''https://v/1?alt=media'')) = Some True"
    by (simp add: finished_operation_def)
  have h6: "downloadLink (finished_operation (Some ''https://v/1?alt=media''))
              = Some ''https://v/1?alt=media''"
    by (simp add: finished_operation_def downloadLink_def index_def)
  have h7: "''https://v/1?alt=media'' \<noteq> []"
    by simp
  have h8: "fetch ?svc (''https://v/1?alt=media'' @ ''&key='' @ ''KEY'')
              = Inr (HttpResponse (Inr ''video bytes of https://v/1?alt=media&key=KEY''))"
    by (simp add: sample_service_def)
  have h9: "blob (HttpResponse (Inr ''video bytes of https://v/1?alt=media&key=KEY''))
              = Inr ''video bytes of https://v/1?alt=media&key=KEY''"
    by simp
  have c: "createObjectURL ?svc ''video bytes of https://v/1?alt=media&key=KEY''
             = ''blob:video bytes of https://v/1?alt=media&key=KEY''"
    by (simp add: sample_service_def)
  have r: "concat (replicate (2 + 1) [SetTimeout 8000, GetVideosOperation]) =
             [SetTimeout 8000, GetVideosOperation, SetTimeout 8000, GetVideosOperation,
              SetTimeout 8000, GetVideosOperation]"
    by (simp add: numeral_2_eq_2)
  from generateAnimation_polls_until_done [OF h1 h2 h3 h4 h5 h6 h7 h8 h9]
  have "generateAnimation ?svc ''KEY'' sample_image (Some (JStr ''wiggle''))
          = Some (Inr ''blob:video bytes of https://v/1?alt=media&key=KEY'',
             [GenerateVideos (generate_request sample_image (Some (JStr ''wiggle'')))] @
             concat (replicate (2 + 1) [SetTimeout 8000, GetVideosOperation]) @
             [Fetch (''https://v/1?alt=media'' @ ''&key='' @ ''KEY''), ReadBlob,
              CreateObjectURL ''video bytes of https://v/1?alt=media&key=KEY''])"
    unfolding c by blast
  then have "generateAnimation ?svc ''KEY'' sample_image (Some (JStr ''wiggle''))
          = Some (Inr ''blob:video bytes of https://v/1?alt=media&key=KEY'',
             [GenerateVideos (generate_request sample_image (Some (JStr ''wiggle''))),
              SetTimeout 8000, GetVideosOperation,
              SetTimeout 8000, GetVideosOperation,
              SetTimeout 8000, GetVideosOperation,
              Fetch ''https://v/1?alt=media&key=KEY'', ReadBlob,
              CreateObjectURL ''video bytes of https://v/1?alt=media&key=KEY''])"
    unfolding r by simp
  moreover have "getVideosOperation ?svc 0 = Inr pending_operation"
    and "getVideosOperation ?svc 1 = Inr pending_operation"
    by (simp_all add: sample_service_def)
  ultimately show ?thesis
    using h1 h2 h4 by blast
qed

text \<open>
  C6: the job's \<open>n\<close>-th status report (the answer to the submission counted as report 0)
  is the first that says done, and it carries no media reference, or an empty one. Then
  the adapter fails with the error \<^verbatim>\<open>Video generation failed - no URI returned\<close>; it has
  made the \<open>n\<close> status checks up to that report and nothing after it, neither a further
  check nor a fetch.
\<close>

theorem generateAnimation_done_without_uri:
  assumes "\<forall>k<n. \<exists>operation. report svc (generate_request b p) k = Inr operation
                    \<and> op_done operation \<noteq> Some True"
    and "report svc (generate_request b p) n = Inr opd"
    and "op_done opd = Some True"
    and "falsy (downloadLink opd)"
  shows "generateAnimation svc key b p =
           Some (Inl no_uri,
                 [GenerateVideos (generate_request b p)] @
                 concat (replicate n [SetTimeout 8000, GetVideosOperation]))"
proof (cases n)
  case 0
  with assms show ?thesis
    by (simp add: generateAnimation_no_uri_at_once)
next
  case (Suc m)
  from assms(1) Suc obtain op0 where
    op0: "generateVideos svc (generate_request b p) = Inr op0" "op_done op0 \<noteq> Some True"
    by (metis report.simps(1) zero_less_Suc)
  have pend: "\<forall>k<m. \<exists>operation. getVideosOperation svc k = Inr operation
                \<and> op_done operation \<noteq> Some True"
    using assms(1) Suc by (metis Suc_less_eq report.simps(2))
  have fin: "getVideosOperation svc m = Inr opd"
    using assms(2) Suc by simp
  from generateAnimation_no_uri [OF op0 pend fin assms(3,4)] Suc show ?thesis
    by simp
qed

theorem generateAnimation_done_without_uri_witness:
  "report (sample_service 2 None) (generate_request sample_image (Some (JStr ''wiggle''))) 0
     = Inr pending_operation
   \<and> report (sample_service 2 None) (generate_request sample_image (Some (JStr ''wiggle''))) 1
       = Inr pending_operation
   \<and> op_done pending_operation \<noteq> Some True
   \<and> report (sample_service 2 None) (generate_request sample_image (Some (JStr ''wiggle''))) 2
       = Inr (finished_operation None)
   \<and> op_done (finished_operation None) = Some True
   \<and> falsy (downloadLink (finished_operation None))
   \<and> generateAnimation (sample_service 2 None) ''KEY'' sample_image (Some (JStr ''wiggle''))
     = Some (Inl no_uri,
             [GenerateVideos (generate_request sample_image (Some (JStr ''wiggle''))),
              SetTimeout 8000, GetVideosOperation, SetTimeout 8000, GetVideosOperation])"
proof -
  let ?svc = "sample_service 2 None"
  let ?req = "generate_request sample_image (Some (JStr ''wiggle''))"
  have r0: "report ?svc ?req 0 = Inr pending_operation"
    by (simp add: sample_service_def)
  have r1: "report ?svc ?req 1 = Inr pending_operation"
    by (simp add: sample_service_def)
  have h1: "\<forall>k<2. \<exists>operation. report ?svc ?req k = Inr operation
              \<and> op_done operation \<noteq> Some True"
  proof (intro allI impI)
    fix k :: nat
    assume "k < 2"
    then have "k = 0 \<or> k = 1" by arith
    with r0 r1 show "\<exists>operation. report ?svc ?req k = Inr operation
                       \<and> op_done operation \<noteq> Some True"
      by (auto simp: pending_operation_def)
  qed
  have h2: "report ?svc ?req 2 = Inr (finished_operation None)"
    by (simp add: sample_service_def numeral_2_eq_2)
  have h3: "op_done (finished_operation None) = Some True"
    by (simp add: finished_operation_def)
  have h4: "falsy (downloadLink (finished_operation None))"
    by (simp add: finished_operation_def downloadLink_def index_def)
  have r: "concat (replicate 2 [SetTimeout 8000, GetVideosOperation]) =
             [SetTimeout 8000, GetVideosOperation, SetTimeout 8000, GetVideosOperation]"
    by (simp add: numeral_2_eq_2)
  from generateAnimation_done_without_uri [OF h1 h2 h3 h4, of "''KEY''"]
  have "generateAnimation ?svc ''KEY'' sample_image (Some (JStr ''wiggle''))
          = Some (Inl no_uri,
             [GenerateVideos ?req, SetTimeout 8000, GetVideosOperation,
              SetTimeout 8000, GetVideosOperation])"
    unfolding r by simp
  moreover have "op_done pending_operation \<noteq> Some True"
    by (simp add: pending_operation_def)
  ultimately show ?thesis
    using r0 r1 h2 h3 h4 by blast
qed

subsection \<open>A whole run\<close>

text \<open>
  C7: \<^verbatim>\<open>processImage\<close> is invoked with an image, in any state of the component; the
  analyzer call succeeds with a persona whose \<^verbatim>\<open>animationPrompt\<close> can be read, and the
  generator call made with the image and that prompt succeeds with a video. Provided
  nothing else happens in between, the controller ends in Completed, holding the image,
  the video, and the persona the analyzer returned, hence the same \<^verbatim>\<open>objectName\<close>.
\<close>

theorem successful_run_completes:
  assumes "analyzeImage parse generateContent b = Inr analysis"
    and "get_prop analysis ''animationPrompt'' = Inr p"
    and "generateAnimation svc key b p = Some (Inr v, tr)"
  shows "(let i = length (runs w);
              w1 = processImage w b;
              w2 = analyze_settled w1 i (analyzeImage parse generateContent b);
              w3 = generate_settled w2 i (fst (the (generateAnimation svc key b p)))
          in status (state w1) = Analyzing
           \<and> status (state w2) = Generating
           \<and> calls w2 = calls w @ [CallAnalyzeImage i b, CallGenerateAnimation i b p]
           \<and> status (state w3) = Completed
           \<and> imageUrl (state w3) = Some b
           \<and> videoUrl (state w3) = Some v
           \<and> persona w3 = analysis
           \<and> get_prop (persona w3) ''objectName'' = get_prop analysis ''objectName'')"
  using assms
  by (simp add: Let_def processImage_def analyze_settled_def generate_settled_def nth_append)

theorem successful_run_completes_witness:
  "analyzeImage JSON_parse (responds (Some teapot_text)) sample_image = Inr teapot
   \<and> get_prop teapot ''animationPrompt'' = Inr (Some (JStr ''teapot wiggles its spout and winks''))
   \<and> (\<exists>tr. generateAnimation (sample_service 1 (Some ''https://v/1?alt=media'')) ''KEY''
          sample_image (Some (JStr ''teapot wiggles its spout and winks''))
        = Some (Inr ''blob:video bytes of https://v/1?alt=media&key=KEY'', tr))
   \<and> status (state (generate_settled
       (analyze_settled (processImage initial sample_image) 0
          (analyzeImage JSON_parse (responds (Some teapot_text)) sample_image))
       0
       (fst (the (generateAnimation (sample_service 1 (Some ''https://v/1?alt=media'')) ''KEY''
          sample_image (Some (JStr ''teapot wiggles its spout and winks'')))))))
     = Completed
   \<and> get_prop (persona (generate_settled
       (analyze_settled (processImage initial sample_image) 0
          (analyzeImage JSON_parse (responds (Some teapot_text)) sample_image))
       0
       (fst (the (generateAnimation (sample_service 1 (Some ''https://v/1?alt=media'')) ''KEY''
          sample_image (Some (JStr ''teapot wiggles its spout and winks''))))))) ''objectName''
     = Inr (Some (JStr ''teapot''))"
proof -
  let ?svc = "sample_service 1 (Some ''https://v/1?alt=media'')"
  let ?p = "Some (JStr ''teapot wiggles its spout and winks'')"
  have parse: "JSON_parse teapot_text = Some teapot"
    by code_simp
  have "teapot_text \<noteq> []"
    by (simp add: teapot_text_def)
  with parse have a: "analyzeImage JSON_parse (responds (Some teapot_text)) sample_image
                        = Inr teapot"
    by (simp add: analyzeImage_def responds_def)
  have g: "get_prop teapot ''animationPrompt'' = Inr ?p"
    by (simp add: teapot_def)
  have n: "get_prop teapot ''objectName'' = Inr (Some (JStr ''teapot''))"
    by (simp add: teapot_def)
  have v: "generateAnimation ?svc ''KEY'' sample_image ?p =
             Some (Inr (createObjectURL ?svc ''video bytes of https://v/1?alt=media&key=KEY''),
                   [GenerateVideos (generate_request sample_image ?p)] @
                   concat (replicate (Suc 0) [SetTimeout 8000, GetVideosOperation]) @
                   [Fetch (''https://v/1?alt=media'' @ ''&key='' @ ''KEY''), ReadBlob,
                    CreateObjectURL ''video bytes of https://v/1?alt=media&key=KEY''])"
    by (rule generateAnimation_success
          [where ?op0.0 = pending_operation
             and opN = "finished_operation (Some ''https://v/1?alt=media'')"
             and videoResponse = "HttpResponse (Inr ''video bytes of https://v/1?alt=media&key=KEY'')"])
       (simp_all add: sample_service_def pending_operation_def finished_operation_def
          downloadLink_def index_def)
  have c: "createObjectURL ?svc ''video bytes of https://v/1?alt=media&key=KEY''
             = ''blob:video bytes of https://v/1?alt=media&key=KEY''"
    by (simp add: sample_service_def)
  from v c obtain tr where
    v': "generateAnimation ?svc ''KEY'' sample_image ?p
           = Some (Inr ''blob:video bytes of https://v/1?alt=media&key=KEY'', tr)"
    by simp
  from successful_run_completes [OF a g v', of initial] n a g v'
  show ?thesis
    by (simp add: Let_def initial_def)
qed

subsection \<open>The image data both adapters send\<close>

text \<open>
  C10, as stated: the image data is the substring after the first comma. It fails on the
  data URL \<^verbatim>\<open>data:text/plain,a,b\<close>, whose substring after the first comma is \<^verbatim>\<open>a,b\<close>:
  both adapters send \<^verbatim>\<open>a\<close>.
\<close>

theorem image_data_counterexample:
  "data (analyze_request ''data:text/plain,a,b'') = Some ''a''
   \<and> imageBytes (generate_request ''data:text/plain,a,b'' None) = Some ''a''
   \<and> Some ''a'' \<noteq> Some ''a,b''"
  by (simp add: analyze_request_def generate_request_def image_data_def index_def)

text \<open>
  C10, amended: both adapters send \<^verbatim>\<open>base64Image.split(',')[1]\<close>. For an input with a
  comma this is the segment between the first comma and the next one, or the end of the
  input when there is no other comma; so for a data URL with a single comma it is all
  that follows the comma. For an input without a comma it is undefined, and the adapter
  raises no error of its own: the analyzer adapter still returns what the parse makes of
  a successful response, and the generator adapter still returns the video of a job that
  completes.
\<close>

theorem image_data_segment:
  "data (analyze_request s) = image_data s
   \<and> imageBytes (generate_request s p) = image_data s
   \<and> (s = pre @ '','' @ seg \<and> CHR '','' \<notin> set pre \<and> CHR '','' \<notin> set seg \<longrightarrow>
        image_data s = Some seg)
   \<and> (s = pre @ '','' @ seg @ '','' @ rest \<and> CHR '','' \<notin> set pre \<and> CHR '','' \<notin> set seg \<longrightarrow>
        image_data s = Some seg)
   \<and> (CHR '','' \<notin> set s \<longrightarrow>
        image_data s = None
        \<and> (generateContent (analyze_request s) = Inr r \<and>
           parse (or_else (response_text r) ''{}'') = Some v \<longrightarrow>
             analyzeImage parse generateContent s = Inr v)
        \<and> (generateVideos svc (generate_request s p) = Inr op0 \<and>
           op_done op0 = Some True \<and> downloadLink op0 = Some link \<and> link \<noteq> [] \<and>
           fetch svc (link @ ''&key='' @ key) = Inr videoResponse \<and>
           blob videoResponse = Inr payload \<longrightarrow>
             generateAnimation svc key s p =
               Some (Inr (createObjectURL svc payload),
                     [GenerateVideos (generate_request s p),
                      Fetch (link @ ''&key='' @ key), ReadBlob, CreateObjectURL payload])))"
proof -
  have req: "data (analyze_request s) = image_data s"
    by (simp add: analyze_request_def)
  have bytes: "imageBytes (generate_request s p) = image_data s"
    by (simp add: generate_request_def)
  have seg: "image_data s =
               (if CHR '','' \<in> set s
                then Some (takeWhile (\<lambda>c. c \<noteq> CHR '','')
                             (tl (dropWhile (\<lambda>c. c \<noteq> CHR '','') s)))
                else None)"
    unfolding image_data_def by (rule index_split_1)
  have one: "s = pre @ '','' @ seg \<and> CHR '','' \<notin> set pre \<and> CHR '','' \<notin> set seg \<longrightarrow>
               image_data s = Some seg"
    unfolding seg by (auto simp: dropWhile_upto takeWhile_all)
  have more: "s = pre @ '','' @ seg @ '','' @ rest \<and> CHR '','' \<notin> set pre \<and>
                CHR '','' \<notin> set seg \<longrightarrow> image_data s = Some seg"
    unfolding seg by (auto simp: dropWhile_upto takeWhile_upto)
  have none: "CHR '','' \<notin> set s \<longrightarrow> image_data s = None"
    unfolding seg by simp
  have ana: "generateContent (analyze_request s) = Inr r \<and>
             parse (or_else (response_text r) ''{}'') = Some v \<longrightarrow>
               analyzeImage parse generateContent s = Inr v"
    by (simp add: analyzeImage_def)
  have gen: "generateVideos svc (generate_request s p) = Inr op0 \<and>
             op_done op0 = Some True \<and> downloadLink op0 = Some link \<and> link \<noteq> [] \<and>
             fetch svc (link @ ''&key='' @ key) = Inr videoResponse \<and>
             blob videoResponse = Inr payload \<longrightarrow>
               generateAnimation svc key s p =
                 Some (Inr (createObjectURL svc payload),
                       [GenerateVideos (generate_request s p),
                        Fetch (link @ ''&key='' @ key), ReadBlob, CreateObjectURL payload])"
    by (simp add: generateAnimation_def poll_done)
  from req bytes one more none ana gen show ?thesis
    by blast
qed

theorem image_data_segment_witness:
  "image_data ''data:image/jpeg;base64,AAAA'' = Some ''AAAA''
   \<and> image_data ''data:text/plain,a,b'' = Some ''a''
   \<and> CHR '','' \<notin> set ''AAAA''
   \<and> image_data ''AAAA'' = None
   \<and> responds (Some teapot_text) (analyze_request ''AAAA'')
       = Inr \<lparr> response_text = Some teapot_text \<rparr>
   \<and> JSON_parse (or_else (Some teapot_text) ''{}'') = Some teapot
   \<and> analyzeImage JSON_parse (responds (Some teapot_text)) ''AAAA'' = Inr teapot
   \<and> generateVideos (sample_service 0 (Some ''https://v/1?alt=media''))
       (generate_request ''AAAA'' None) = Inr (finished_operation (Some ''https://v/1?alt=media''))
   \<and> generateAnimation (sample_service 0 (Some ''https://v/1?alt=media'')) ''KEY'' ''AAAA'' None =
       Some (Inr ''blob:video bytes of https://v/1?alt=media&key=KEY'',
             [GenerateVideos (generate_request ''AAAA'' None),
              Fetch ''https://v/1?alt=media&key=KEY'', ReadBlob,
              CreateObjectURL ''video bytes of https://v/1?alt=media&key=KEY''])"
proof -
  let ?svc = "sample_service 0 (Some ''https://v/1?alt=media'')"
  have s1: "''data:image/jpeg;base64,AAAA'' = ''data:image/jpeg;base64'' @ '','' @ ''AAAA''
            \<and> CHR '','' \<notin> set ''data:image/jpeg;base64'' \<and> CHR '','' \<notin> set ''AAAA''"
    by simp
  have s2: "''data:text/plain,a,b'' = ''data:text/plain'' @ '','' @ ''a'' @ '','' @ ''b''
            \<and> CHR '','' \<notin> set ''data:text/plain'' \<and> CHR '','' \<notin> set ''a''"
    by simp
  have s3: "CHR '','' \<notin> set ''AAAA''"
    by simp
  have r: "responds (Some teapot_text) (analyze_request ''AAAA'')
             = Inr \<lparr> response_text = Some teapot_text \<rparr>"
    by (simp add: responds_def)
  have p: "JSON_parse (or_else (response_text \<lparr> response_text = Some teapot_text \<rparr>) ''{}'')
             = Some teapot"
    by code_simp
  have p': "JSON_parse (or_else (Some teapot_text) ''{}'') = Some teapot"
    using p by simp
  have g1: "generateVideos ?svc (generate_request ''AAAA'' None)
              = Inr (finished_operation (Some ''https://v/1?alt=media''))"
    by (simp add: sample_service_def)
  have g2: "op_done (finished_operation (Some ''https://v/1?alt=media'')) = Some True
            \<and> downloadLink (finished_operation (Some ''https://v/1?alt=media''))
                = Some ''https://v/1?alt=media''
            \<and> ''https://v/1?alt=media'' \<noteq> []"
    by (simp add: finished_operation_def downloadLink_def index_def)
  have g3: "fetch ?svc (''https://v/1?alt=media'' @ ''&key='' @ ''KEY'')
              = Inr (HttpResponse (Inr ''video bytes of https://v/1?alt=media&key=KEY''))
            \<and> blob (HttpResponse (Inr ''video bytes of https://v/1?alt=media&key=KEY''))
                = Inr ''video bytes of https://v/1?alt=media&key=KEY''"
    by (simp add: sample_service_def)
  have c: "createObjectURL ?svc ''video bytes of https://v/1?alt=media&key=KEY''
             = ''blob:video bytes of https://v/1?alt=media&key=KEY''"
    by (simp add: sample_service_def)
  have a1: "image_data ''data:image/jpeg;base64,AAAA'' = Some ''AAAA''"
    using image_data_segment
            [where s = "''data:image/jpeg;base64,AAAA''" and pre = "''data:image/jpeg;base64''"
               and seg = "''AAAA''"] s1
    by blast
  have a2: "image_data ''data:text/plain,a,b'' = Some ''a''"
    using image_data_segment
            [where s = "''data:text/plain,a,b''" and pre = "''data:text/plain''"
               and seg = "''a''" and rest = "''b''"] s2
    by blast
  have a3: "image_data ''AAAA'' = None
            \<and> analyzeImage JSON_parse (responds (Some teapot_text)) ''AAAA'' = Inr teapot
            \<and> generateAnimation ?svc ''KEY'' ''AAAA'' None =
                Some (Inr (createObjectURL ?svc ''video bytes of https://v/1?alt=media&key=KEY''),
                      [GenerateVideos (generate_request ''AAAA'' None),
                       Fetch (''https://v/1?alt=media'' @ ''&key='' @ ''KEY''), ReadBlob,
                       CreateObjectURL ''video bytes of https://v/1?alt=media&key=KEY''])"
    using image_data_segment
            [where s = "''AAAA''" and generateContent = "responds (Some teapot_text)"
               and parse = JSON_parse and r = "\<lparr> response_text = Some teapot_text \<rparr>"
               and v = teapot and svc = ?svc and p = None and key = "''KEY''"
               and ?op0.0 = "finished_operation (Some ''https://v/1?alt=media'')"
               and link = "''https://v/1?alt=media''"
               and videoResponse = "HttpResponse (Inr ''video bytes of https://v/1?alt=media&key=KEY'')"
               and payload = "''video bytes of https://v/1?alt=media&key=KEY''"]
          s3 r p g1 g2 g3
    by blast
  from a3 have a4: "generateAnimation ?svc ''KEY'' ''AAAA'' None =
       Some (Inr ''blob:video bytes of https://v/1?alt=media&key=KEY'',
             [GenerateVideos (generate_request ''AAAA'' None),
              Fetch ''https://v/1?alt=media&key=KEY'', ReadBlob,
              CreateObjectURL ''video bytes of https://v/1?alt=media&key=KEY''])"
    unfolding c by simp
  from a1 a2 a3 a4 s3 r p' g1 show ?thesis
    by blast
qed

end
